theory Spec2Isabelle
  imports Complex_Main
begin

section \<open>Spectrogram augmentation: augmentation.py of torchaudio-contrib\<close>

text \<open>
  The module holds three augmentations of a spectrogram, a tensor indexed
  [batch, channel, frequency bin, time frame]: a time stretch (\<open>StretchSpecTime\<close>),
  additive Gaussian noise (\<open>AdditiveNoise\<close>) and masking along the frequency or the time
  axis (\<open>mask_along_axis\<close>, \<open>mask_along_axis_batch\<close> and the modules around them).

  Tensor elements are real (or complex) numbers. The machine arithmetic of the masking
  functions is a parameter of their definitions; the table of \<open>StretchSpecTime\<close> and the
  noise are computed without rounding. Python exceptions are values of the type \<open>error\<close>.
\<close>

subsection \<open>Errors\<close>

text \<open>
  \<open>ValueError\<close> is what both masking functions raise for an unsupported axis,
  \<open>IndexError\<close> is what \<open>Tensor.size\<close> raises for a dimension outside the tensor,
  \<open>RuntimeError\<close> is what the tensor library raises for a negative number of steps, a
  negative standard deviation or shapes that do not broadcast.
\<close>

datatype error = ValueError | IndexError | RuntimeError

subsection \<open>Tensors with four dimensions\<close>

type_synonym 'a tensor4 = "'a list list list list"

definition row0 :: "'a list list \<Rightarrow> 'a list" where
  "row0 xs = (case xs of [] \<Rightarrow> [] | x # _ \<Rightarrow> x)"

text \<open>
  The extents of the four dimensions, read along the first entry of every level (a tensor
  with an empty outer dimension has no element, and its inner extents read as 0).
\<close>

definition dims :: "'a tensor4 \<Rightarrow> nat list" where
  "dims t = [length t, length (row0 t), length (row0 (row0 t)), length (row0 (row0 (row0 t)))]"

definition valid_idx :: "'a tensor4 \<Rightarrow> nat \<Rightarrow> nat \<Rightarrow> nat \<Rightarrow> nat \<Rightarrow> bool" where
  "valid_idx t b c i j \<longleftrightarrow>
     b < length t \<and> c < length (t ! b) \<and> i < length (t ! b ! c) \<and> j < length (t ! b ! c ! i)"

definition imap :: "(nat \<Rightarrow> 'a \<Rightarrow> 'b) \<Rightarrow> 'a list \<Rightarrow> 'b list" where
  "imap f xs = map (\<lambda>i. f i (xs ! i)) [0..<length xs]"

definition imap4 :: "(nat \<Rightarrow> nat \<Rightarrow> nat \<Rightarrow> nat \<Rightarrow> 'a \<Rightarrow> 'b) \<Rightarrow> 'a tensor4 \<Rightarrow> 'b tensor4" where
  "imap4 f t = imap (\<lambda>b. imap (\<lambda>c. imap (\<lambda>i. imap (\<lambda>j. f b c i j)))) t"

subsection \<open>StretchSpecTime: construction\<close>

text \<open>
  \<open>torch.linspace(start, stop, steps)\<close>: \<open>steps\<close> points from \<open>start\<close> to \<open>stop\<close> at equal
  distance, \<open>start\<close> alone for one step, and an error for a negative number of steps.
\<close>

definition linspace :: "real \<Rightarrow> real \<Rightarrow> int \<Rightarrow> error + real list" where
  "linspace start stop steps =
     (if steps < 0 then Inl RuntimeError
      else if steps = 1 then Inr [start]
      else Inr (map (\<lambda>k. start + real k * ((stop - start) / real_of_int (steps - 1)))
                  [0..<nat steps]))"

record StretchSpecTime =
  rate :: real
  phi_advance :: "real list list"

text \<open>
  \<open>__init__(rate, hop_len, num_bins)\<close> stores the rate and the table
  \<open>linspace(0, pi * hop_len, num_bins)[..., None]\<close>, of shape [num_bins, 1]. It checks none
  of its arguments.
\<close>

definition StretchSpecTime_init :: "real \<Rightarrow> int \<Rightarrow> int \<Rightarrow> error + StretchSpecTime" where
  "StretchSpecTime_init rate0 hop_len num_bins =
     (case linspace 0 (pi * real_of_int hop_len) num_bins of
        Inl e \<Rightarrow> Inl e
      | Inr tbl \<Rightarrow> Inr \<lparr>rate = rate0, phi_advance = map (\<lambda>x. [x]) tbl\<rparr>)"

subsection \<open>StretchSpecTime: forward\<close>

text \<open>
  \<open>forward(spect, rate=None)\<close> hands the spectrogram, the rate of the call (the stored one
  when the call gives none) and the table to \<open>phase_vocoder\<close>. That function belongs to
  \<open>functional.py\<close>, another module: it is the parameter \<open>phase_vocoder\<close> here.
\<close>

definition StretchSpecTime_forward ::
  "(complex tensor4 \<Rightarrow> real \<Rightarrow> real list list \<Rightarrow> error + complex tensor4)
     \<Rightarrow> StretchSpecTime \<Rightarrow> complex tensor4 \<Rightarrow> real option \<Rightarrow> error + complex tensor4" where
  "StretchSpecTime_forward phase_vocoder self spect rate_opt =
     (let r = (case rate_opt of None \<Rightarrow> rate self | Some r' \<Rightarrow> r')
      in phase_vocoder spect r (phi_advance self))"

subsection \<open>Tensors in memory\<close>

text \<open>
  Masking writes into the tensor it is given, and the noise is added into a new tensor.
  The memory is a table of storages, each holding the elements of one tensor, with the
  next unused address. A tensor value of the program is a view of a storage: the address
  and whether the last two dimensions are exchanged (\<open>transpose(2, 3)\<close> returns a view of
  the same storage, it copies nothing).
\<close>

record heap =
  cells :: "nat \<Rightarrow> real tensor4"
  next_free :: nat

record view =
  base :: nat
  swap23 :: bool

definition shape_v :: "heap \<Rightarrow> view \<Rightarrow> nat list" where
  "shape_v h v =
     (let d = dims (cells h (base v))
      in if swap23 v then [d ! 0, d ! 1, d ! 3, d ! 2] else d)"

text \<open>\<open>Tensor.size(d)\<close>: dimensions count from the end when negative.\<close>

definition size_v :: "heap \<Rightarrow> view \<Rightarrow> int \<Rightarrow> error + nat" where
  "size_v h v d =
     (if d < - 4 \<or> 3 < d then Inl IndexError
      else Inr (shape_v h v ! nat (if d < 0 then d + 4 else d)))"

definition get_v :: "heap \<Rightarrow> view \<Rightarrow> nat \<Rightarrow> nat \<Rightarrow> nat \<Rightarrow> nat \<Rightarrow> real" where
  "get_v h v b c i j =
     (if swap23 v then cells h (base v) ! b ! c ! j ! i else cells h (base v) ! b ! c ! i ! j)"

definition valid_v :: "heap \<Rightarrow> view \<Rightarrow> nat \<Rightarrow> nat \<Rightarrow> nat \<Rightarrow> nat \<Rightarrow> bool" where
  "valid_v h v b c i j =
     (if swap23 v then valid_idx (cells h (base v)) b c j i
      else valid_idx (cells h (base v)) b c i j)"

text \<open>\<open>transpose(d0, d1)\<close> for two of the last two dimensions.\<close>

definition transpose_v :: "view \<Rightarrow> int \<Rightarrow> int \<Rightarrow> view" where
  "transpose_v v d0 d1 = (if d0 = d1 then v else v\<lparr>swap23 := \<not> swap23 v\<rparr>)"

text \<open>
  An indexed assignment \<open>v[...] = val\<close>: every element of the view whose index
  \<open>(b, c, i, j)\<close> is selected by \<open>sel\<close> is overwritten in the storage of the view.
\<close>

definition setitem :: "heap \<Rightarrow> view \<Rightarrow> (nat \<Rightarrow> nat \<Rightarrow> nat \<Rightarrow> nat \<Rightarrow> bool) \<Rightarrow> real \<Rightarrow> heap" where
  "setitem h v sel val =
     h\<lparr>cells := (cells h)(base v :=
         imap4 (\<lambda>b c f t x. if (if swap23 v then sel b c t f else sel b c f t) then val else x)
           (cells h (base v)))\<rparr>"

definition alloc :: "heap \<Rightarrow> real tensor4 \<Rightarrow> view \<times> heap" where
  "alloc h t =
     (\<lparr>base = next_free h, swap23 = False\<rparr>,
      h\<lparr>cells := (cells h)(next_free h := t), next_free := Suc (next_free h)\<rparr>)"

subsection \<open>AdditiveNoise\<close>

text \<open>
  The scale is "float or tensor": a number, or a tensor of four dimensions (a tensor of
  fewer dimensions broadcasts as the tensor with leading dimensions of size one).
\<close>

datatype tensor_arg = Scalar real | Tensor "real tensor4"

definition tab4 :: "nat list \<Rightarrow> (nat \<Rightarrow> nat \<Rightarrow> nat \<Rightarrow> nat \<Rightarrow> 'a) \<Rightarrow> 'a tensor4" where
  "tab4 shp f =
     map (\<lambda>b. map (\<lambda>c. map (\<lambda>i. map (\<lambda>j. f b c i j) [0..<shp ! 3]) [0..<shp ! 2]) [0..<shp ! 1])
       [0..<shp ! 0]"

text \<open>
  \<open>Tensor.expand(shape)\<close>: a number fills the shape; a dimension of a tensor has the
  extent the shape asks for, or the extent one and its entry is repeated; any other extent
  is an error.
\<close>

definition bcast :: "nat \<Rightarrow> nat \<Rightarrow> nat" where
  "bcast n k = (if n = 1 then 0 else k)"

definition expand :: "tensor_arg \<Rightarrow> nat list \<Rightarrow> error + real tensor4" where
  "expand a shp =
     (case a of
        Scalar x \<Rightarrow> Inr (tab4 shp (\<lambda>b c i j. x))
      | Tensor t \<Rightarrow>
          (let d = dims t in
           if list_all (\<lambda>k. d ! k = shp ! k \<or> d ! k = 1) [0, 1, 2, 3]
           then Inr (tab4 shp (\<lambda>b c i j.
                  t ! bcast (d ! 0) b ! bcast (d ! 1) c ! bcast (d ! 2) i ! bcast (d ! 3) j))
           else Inl RuntimeError))"

text \<open>
  \<open>torch.normal(mean, std)\<close>: one sample for every element, of the normal distribution
  with the element's mean and standard deviation, that is the mean plus the standard
  deviation times a standard normal draw; \<open>z b c i j\<close> is the draw for the element
  \<open>(b, c, i, j)\<close>. A negative standard deviation is an error.
\<close>

definition normal ::
  "real tensor4 \<Rightarrow> real tensor4 \<Rightarrow> (nat \<Rightarrow> nat \<Rightarrow> nat \<Rightarrow> nat \<Rightarrow> real) \<Rightarrow> error + real tensor4" where
  "normal mean std z =
     (if list_ex (list_ex (list_ex (list_ex (\<lambda>s. s < 0)))) std then Inl RuntimeError
      else Inr (imap4 (\<lambda>b c i j m. m + std ! b ! c ! i ! j * z b c i j) mean))"

text \<open>The elements of a view, as a tensor of the view's shape.\<close>

definition transpose2 :: "'a list list \<Rightarrow> 'a list list" where
  "transpose2 m = map (\<lambda>j. map (\<lambda>i. m ! i ! j) [0..<length m]) [0..<length (row0 m)]"

definition read_v :: "heap \<Rightarrow> view \<Rightarrow> real tensor4" where
  "read_v h v =
     (if swap23 v then map (map transpose2) (cells h (base v)) else cells h (base v))"

record AdditiveNoise =
  scale :: tensor_arg
  loc :: tensor_arg

definition AdditiveNoise_init :: "tensor_arg \<Rightarrow> AdditiveNoise" where
  "AdditiveNoise_init scale0 = \<lparr>scale = scale0, loc = Scalar 0\<rparr>"

text \<open>
  \<open>forward(spect, scale=None)\<close>: the scale of the call or the stored one; the noise is
  drawn with the location and the scale expanded to the shape of the spectrogram, and
  \<open>spect + noise\<close> is a new tensor.
\<close>

definition AdditiveNoise_forward ::
  "heap \<Rightarrow> AdditiveNoise \<Rightarrow> view \<Rightarrow> tensor_arg option \<Rightarrow> (nat \<Rightarrow> nat \<Rightarrow> nat \<Rightarrow> nat \<Rightarrow> real)
     \<Rightarrow> (error + view) \<times> heap" where
  "AdditiveNoise_forward h self spect scale_opt z =
     (let sc = (case scale_opt of None \<Rightarrow> scale self | Some s \<Rightarrow> s);
          shp = shape_v h spect
      in case expand (loc self) shp of
           Inl e \<Rightarrow> (Inl e, h)
         | Inr mean \<Rightarrow>
        (case expand sc shp of
           Inl e \<Rightarrow> (Inl e, h)
         | Inr std \<Rightarrow>
        (case normal mean std z of
           Inl e \<Rightarrow> (Inl e, h)
         | Inr noise \<Rightarrow>
             (let (r, h') = alloc h (imap4 (\<lambda>b c i j x. x + noise ! b ! c ! i ! j) (read_v h spect))
              in (Inr r, h')))))"

subsection \<open>Masking\<close>

text \<open>
  The uniform draws: \<open>g n\<close> is the \<open>n\<close>-th number in [0, 1) the generator yields from the
  call on. \<open>torch.rand(shape)\<close> takes the next numbers in the order of the elements.
\<close>

type_synonym rng = "nat \<Rightarrow> real"

text \<open>
  The machine arithmetic of the masking functions is a parameter, so that what is proved
  of them holds whatever the rounding of the float32 operations and the overflow of the
  int64 operations are:
  \<^item> \<open>fmul u x\<close> is the float32 product \<open>torch.rand(...) * x\<close> of a draw and a number or
    tensor element;
  \<^item> \<open>fsub n x\<close> is the float32 difference \<open>spect.size(axis) - value\<close> of an int and a
    tensor element;
  \<^item> \<open>to_long x\<close> is \<open>Tensor.long()\<close>, the conversion of a float32 to an int64;
  \<^item> \<open>ladd m n\<close> is the int64 sum of two elements of \<open>long\<close> tensors.

  A float32 value is a real number here: infinities and NaN, which a maximal length
  beyond the float32 range would give, are left out.
\<close>

record arith =
  fmul :: "real \<Rightarrow> real \<Rightarrow> real"
  fsub :: "real \<Rightarrow> real \<Rightarrow> real"
  to_long :: "real \<Rightarrow> int"
  ladd :: "int \<Rightarrow> int \<Rightarrow> int"

text \<open>
  The arithmetic without rounding and without overflow: the product and the difference
  of real numbers, \<open>long()\<close> as rounding towards zero, the sum of integers.
\<close>

definition trunc :: "real \<Rightarrow> int" where
  "trunc x = (if 0 \<le> x then \<lfloor>x\<rfloor> else \<lceil>x\<rceil>)"

definition exact :: arith where
  "exact = \<lparr>fmul = (\<lambda>u x. u * x), fsub = (\<lambda>n x. n - x), to_long = trunc,
            ladd = (\<lambda>m n. m + n)\<rparr>"

text \<open>
  The four tensors of shape [B, C] that \<open>mask_along_axis\<close> computes for an axis of length
  \<open>L\<close>: \<open>value\<close> from the first \<open>B * C\<close> draws, \<open>min_value\<close> from the next \<open>B * C\<close>,
  \<open>mask_start = min_value.long()\<close> and \<open>mask_end = min_value.long() + value.long()\<close>.
\<close>

definition value_bc :: "arith \<Rightarrow> rng \<Rightarrow> nat \<Rightarrow> real \<Rightarrow> nat \<Rightarrow> nat \<Rightarrow> real" where
  "value_bc ar g C max_value b c = fmul ar (g (b * C + c)) max_value"

definition min_value_bc :: "arith \<Rightarrow> rng \<Rightarrow> nat \<Rightarrow> nat \<Rightarrow> nat \<Rightarrow> real \<Rightarrow> nat \<Rightarrow> nat \<Rightarrow> real" where
  "min_value_bc ar g B C L max_value b c =
     fmul ar (g (B * C + (b * C + c))) (fsub ar (real L) (value_bc ar g C max_value b c))"

definition mask_start :: "arith \<Rightarrow> rng \<Rightarrow> nat \<Rightarrow> nat \<Rightarrow> nat \<Rightarrow> real \<Rightarrow> nat \<Rightarrow> nat \<Rightarrow> int" where
  "mask_start ar g B C L max_value b c = to_long ar (min_value_bc ar g B C L max_value b c)"

definition mask_end :: "arith \<Rightarrow> rng \<Rightarrow> nat \<Rightarrow> nat \<Rightarrow> nat \<Rightarrow> real \<Rightarrow> nat \<Rightarrow> nat \<Rightarrow> int" where
  "mask_end ar g B C L max_value b c =
     ladd ar (to_long ar (min_value_bc ar g B C L max_value b c))
       (to_long ar (value_bc ar g C max_value b c))"

text \<open>
  \<open>mask_along_axis\<close>: the axis is checked first. The mask of shape [B, C, L] selects, in
  the view with the axis moved to dimension 2, the positions from \<open>mask_start\<close> up to
  \<open>mask_end\<close> of every batch entry and channel, along the whole last dimension.
\<close>

definition mask_along_axis ::
  "arith \<Rightarrow> heap \<Rightarrow> view \<Rightarrow> real \<Rightarrow> real \<Rightarrow> int \<Rightarrow> rng \<Rightarrow> (error + view) \<times> heap" where
  "mask_along_axis ar h spect max_value mask_value axis g =
     (if axis \<notin> {2, 3} then (Inl ValueError, h)
      else case size_v h spect axis of
             Inl e \<Rightarrow> (Inl e, h)
           | Inr L \<Rightarrow>
               (let B = shape_v h spect ! 0;
                    C = shape_v h spect ! 1;
                    mask = (\<lambda>b c l. mask_start ar g B C L max_value b c \<le> int l
                                   \<and> int l < mask_end ar g B C L max_value b c);
                    spect1 = transpose_v spect 2 axis;
                    h' = setitem h spect1 (\<lambda>b c i j. mask b c i) mask_value;
                    spect2 = transpose_v spect1 2 axis
                in (Inr spect2, h')))"

text \<open>
  A slice \<open>a:b\<close> of a dimension of length \<open>L\<close>: a negative bound counts from the end, and
  both bounds are clipped to the dimension.
\<close>

definition slice_index :: "nat \<Rightarrow> int \<Rightarrow> nat" where
  "slice_index L a = nat (if a < 0 then max (a + int L) 0 else min a (int L))"

definition in_slice :: "nat \<Rightarrow> int \<Rightarrow> int \<Rightarrow> nat \<Rightarrow> bool" where
  "in_slice L a b k \<longleftrightarrow> slice_index L a \<le> k \<and> k < slice_index L b"

text \<open>
  \<open>mask_along_axis_batch\<close>: one draw for the length (\<open>value\<close>) and one for the start
  (\<open>min_value\<close>), \<open>size(axis)\<close> read before the axis is checked, and one slice assignment
  from \<open>mask_start = min_value.long()\<close> to \<open>mask_end = min_value.long() + value.long()\<close>
  for the whole tensor.
\<close>

definition batch_start :: "arith \<Rightarrow> rng \<Rightarrow> nat \<Rightarrow> real \<Rightarrow> int" where
  "batch_start ar g L max_value =
     to_long ar (fmul ar (g 1) (fsub ar (real L) (fmul ar (g 0) max_value)))"

definition batch_end :: "arith \<Rightarrow> rng \<Rightarrow> nat \<Rightarrow> real \<Rightarrow> int" where
  "batch_end ar g L max_value =
     ladd ar (to_long ar (fmul ar (g 1) (fsub ar (real L) (fmul ar (g 0) max_value))))
       (to_long ar (fmul ar (g 0) max_value))"

definition mask_along_axis_batch ::
  "arith \<Rightarrow> heap \<Rightarrow> view \<Rightarrow> real \<Rightarrow> real \<Rightarrow> int \<Rightarrow> rng \<Rightarrow> (error + view) \<times> heap" where
  "mask_along_axis_batch ar h spect max_value mask_value axis g =
     (case size_v h spect axis of
        Inl e \<Rightarrow> (Inl e, h)
      | Inr L \<Rightarrow>
          if axis = 2
            then (Inr spect,
                  setitem h spect
                    (\<lambda>b c i j. in_slice (shape_v h spect ! 2)
                                 (batch_start ar g L max_value) (batch_end ar g L max_value) i)
                    mask_value)
          else if axis = 3
            then (Inr spect,
                  setitem h spect
                    (\<lambda>b c i j. in_slice (shape_v h spect ! 3)
                                 (batch_start ar g L max_value) (batch_end ar g L max_value) j)
                    mask_value)
          else (Inl ValueError, h))"

text \<open>
  The modules: \<open>_AxisMasking\<close> stores the maximal length, the axis and one of the two
  masking functions; \<open>FrequencyMasking\<close> and \<open>TimeMasking\<close> fix the axis.
\<close>

record AxisMasking =
  max_value :: real
  axis :: int
  masking :: "arith \<Rightarrow> heap \<Rightarrow> view \<Rightarrow> real \<Rightarrow> real \<Rightarrow> int \<Rightarrow> rng \<Rightarrow> (error + view) \<times> heap"

definition AxisMasking_init :: "real \<Rightarrow> int \<Rightarrow> bool \<Rightarrow> AxisMasking" where
  "AxisMasking_init max_value0 axis0 across_batch =
     \<lparr>max_value = max_value0, axis = axis0,
      masking = (if across_batch then mask_along_axis_batch else mask_along_axis)\<rparr>"

text \<open>\<open>forward(spect, mask_value=0)\<close>.\<close>

definition AxisMasking_forward ::
  "arith \<Rightarrow> AxisMasking \<Rightarrow> heap \<Rightarrow> view \<Rightarrow> real option \<Rightarrow> rng \<Rightarrow> (error + view) \<times> heap" where
  "AxisMasking_forward ar self h spect mask_value_opt g =
     masking self ar h spect (max_value self)
       (case mask_value_opt of None \<Rightarrow> 0 | Some v \<Rightarrow> v) (axis self) g"

definition FrequencyMasking_init :: "real \<Rightarrow> bool \<Rightarrow> AxisMasking" where
  "FrequencyMasking_init max_freq across_batch = AxisMasking_init max_freq 2 across_batch"

definition TimeMasking_init :: "real \<Rightarrow> bool \<Rightarrow> AxisMasking" where
  "TimeMasking_init max_time across_batch = AxisMasking_init max_time 3 across_batch"

subsection \<open>Well-formed tensors\<close>

text \<open>
  The nested lists of a tensor are rectangular: every entry of a level has the extent
  that \<open>dims\<close> reads along the first entries.
\<close>

definition rect :: "'a tensor4 \<Rightarrow> bool" where
  "rect t \<longleftrightarrow>
     list_all (\<lambda>x. length x = dims t ! 1 \<and>
       list_all (\<lambda>y. length y = dims t ! 2 \<and>
         list_all (\<lambda>z. length z = dims t ! 3) y) x) t"

subsection \<open>An example\<close>

text \<open>
  A memory with one tensor of shape [2, 1, 2, 3], all ones, at address 0; the view of
  the tensor at address 0; a generator whose every draw is 1/2; standard normal draws
  that are all 3.
\<close>

definition ones :: "real tensor4" where
  "ones = [[[[1, 1, 1], [1, 1, 1]]], [[[1, 1, 1], [1, 1, 1]]]]"

definition heap0 :: heap where
  "heap0 = \<lparr>cells = (\<lambda>a. if a = 0 then ones else []), next_free = 1\<rparr>"

definition spect0 :: view where
  "spect0 = \<lparr>base = 0, swap23 = False\<rparr>"

definition half :: rng where
  "half n = 1 / 2"

definition threes :: "nat \<Rightarrow> nat \<Rightarrow> nat \<Rightarrow> nat \<Rightarrow> real" where
  "threes b c i j = 3"




section \<open>Properties\<close>

subsection \<open>Lists and tensors\<close>

lemma length_imap [simp]: "length (imap f xs) = length xs"
  by (simp add: imap_def)

lemma nth_imap [simp]: "i < length xs \<Longrightarrow> imap f xs ! i = f i (xs ! i)"
  by (simp add: imap_def)

lemma imap_id: "(\<And>i. i < length xs \<Longrightarrow> f i (xs ! i) = xs ! i) \<Longrightarrow> imap f xs = xs"
  by (simp add: list_eq_iff_nth_eq)

lemma row0_imap: "row0 (imap (\<lambda>b. imap (g b)) t) = imap (g 0) (row0 t)"
  by (cases t) (simp_all add: row0_def imap_def upt_conv_Cons del: upt_Suc)

lemma valid_idx_imap4 [simp]: "valid_idx (imap4 f t) b c i j = valid_idx t b c i j"
  by (auto simp: valid_idx_def imap4_def)

lemma nth_imap4:
  "valid_idx t b c i j \<Longrightarrow> imap4 f t ! b ! c ! i ! j = f b c i j (t ! b ! c ! i ! j)"
  by (simp add: valid_idx_def imap4_def)

lemma dims_imap4 [simp]: "dims (imap4 f t) = dims t"
  by (simp add: dims_def imap4_def row0_imap)

subsection \<open>The phase advance table\<close>

lemma linspace_length: "0 \<le> n \<Longrightarrow> linspace a b n = Inr xs \<Longrightarrow> length xs = nat n"
  by (auto simp: linspace_def split: if_splits)

text \<open>
  C2. For \<open>num_bins \<ge> 2\<close> the table built by the constructor has \<open>num_bins\<close> entries, and
  the entry of bin \<open>k\<close> is \<open>k * pi * hop_len / (num_bins - 1)\<close>: the table runs from 0 to
  \<open>pi * hop_len\<close> in equal steps. For \<open>num_bins = 4\<close> and \<open>hop_len = 2\<close> it is
  \<open>[0, 2 pi / 3, 4 pi / 3, 2 pi]\<close> (each entry in a trailing dimension of size one).
\<close>

theorem phi_advance_table:
  "(2 \<le> num_bins \<longrightarrow>
      (\<exists>st. StretchSpecTime_init rate0 hop_len num_bins = Inr st \<and>
            length (phi_advance st) = nat num_bins \<and>
            (\<forall>k < nat num_bins. phi_advance st ! k =
               [real k * pi * real_of_int hop_len / real_of_int (num_bins - 1)])))
   \<and> StretchSpecTime_init rate0 2 4 =
       Inr \<lparr>rate = rate0, phi_advance = [[0], [2 * pi / 3], [4 * pi / 3], [2 * pi]]\<rparr>"
proof
  show "2 \<le> num_bins \<longrightarrow>
      (\<exists>st. StretchSpecTime_init rate0 hop_len num_bins = Inr st \<and>
            length (phi_advance st) = nat num_bins \<and>
            (\<forall>k < nat num_bins. phi_advance st ! k =
               [real k * pi * real_of_int hop_len / real_of_int (num_bins - 1)]))"
    by (simp add: StretchSpecTime_init_def linspace_def)
next
  have "[0..<nat 4] = [0, 1, 2, 3]"
    by (simp add: upt_conv_Cons)
  then show "StretchSpecTime_init rate0 2 4 =
       Inr \<lparr>rate = rate0, phi_advance = [[0], [2 * pi / 3], [4 * pi / 3], [2 * pi]]\<rparr>"
    by (simp add: StretchSpecTime_init_def linspace_def)
qed

theorem phi_advance_table_witness:
  "(2::int) \<le> 3 \<and>
   (\<exists>st. StretchSpecTime_init 1 512 3 = Inr st \<and> length (phi_advance st) = 3 \<and>
      phi_advance st ! 0 = [0] \<and> phi_advance st ! 1 = [256 * pi] \<and>
      phi_advance st ! 2 = [512 * pi])"
proof -
  from phi_advance_table [of 3 1 512]
  obtain st where i: "StretchSpecTime_init 1 512 3 = Inr st"
    and l: "length (phi_advance st) = nat 3"
    and k: "\<forall>k < nat 3. phi_advance st ! k = [real k * pi * real_of_int 512 / real_of_int (3 - 1)]"
    by auto
  from k have "phi_advance st ! 0 = [0]" "phi_advance st ! 1 = [256 * pi]"
    "phi_advance st ! 2 = [512 * pi]"
    by simp_all
  with i l show ?thesis by simp
qed

subsection \<open>The example\<close>

lemmas ex_defs = heap0_def spect0_def ones_def half_def threes_def

lemma shape_heap0: "shape_v heap0 spect0 = [2, 1, 2, 3]"
  by (simp add: ex_defs shape_v_def dims_def row0_def)

lemma valid_heap0: "valid_v heap0 spect0 1 0 1 1" "valid_v heap0 spect0 1 0 1 2"
  "valid_v heap0 spect0 0 0 0 1"
  by (simp_all add: ex_defs valid_v_def valid_idx_def)

lemma get_heap0: "get_v heap0 spect0 1 0 1 1 = 1" "get_v heap0 spect0 1 0 1 2 = 1"
  "get_v heap0 spect0 0 0 0 1 = 1"
  by (simp_all add: ex_defs get_v_def)

lemma rect_ones: "rect (cells heap0 (base spect0))"
  by (simp add: ex_defs rect_def dims_def row0_def)

subsection \<open>The masked span\<close>

lemma trunc_nonneg: "0 \<le> x \<Longrightarrow> 0 \<le> trunc x \<and> real_of_int (trunc x) \<le> x"
  by (simp add: trunc_def)

lemma get_v_setitem:
  assumes "valid_v h v' b c i j" and "base v' = base v"
  shows "get_v (setitem h v sel val) v' b c i j =
           (if (if swap23 v' = swap23 v then sel b c i j else sel b c j i) then val
            else get_v h v' b c i j)"
  using assms by (auto simp: get_v_def setitem_def valid_v_def nth_imap4)

lemma valid_v_setitem [simp]: "valid_v (setitem h v sel val) v' = valid_v h v'"
  by (auto simp: valid_v_def setitem_def fun_eq_iff)


lemma next_free_setitem [simp]: "next_free (setitem h v sel val) = next_free h"
  by (simp add: setitem_def)

lemma shape_v_setitem [simp]: "shape_v (setitem h v sel val) v' = shape_v h v'"
  by (simp add: shape_v_def setitem_def)

lemma size_v_23: "ax = 2 \<or> ax = 3 \<Longrightarrow> size_v h v ax = Inr (shape_v h v ! nat ax)"
  by (auto simp: size_v_def)

lemma transpose_v_twice: "transpose_v (transpose_v v 2 ax) 2 ax = v"
  by (simp add: transpose_v_def)

lemma mask_along_axis_ok:
  assumes "ax = 2 \<or> ax = 3"
  shows "mask_along_axis ar h spect M v ax g =
     (Inr spect,
      setitem h (transpose_v spect 2 ax)
        (\<lambda>b c i j. mask_start ar g (shape_v h spect ! 0) (shape_v h spect ! 1)
                      (shape_v h spect ! nat ax) M b c \<le> int i
                 \<and> int i < mask_end ar g (shape_v h spect ! 0) (shape_v h spect ! 1)
                      (shape_v h spect ! nat ax) M b c) v)"
  using assms by (auto simp: mask_along_axis_def size_v_23 transpose_v_twice Let_def)

lemma mask_along_axis_batch_ok:
  assumes "ax = 2 \<or> ax = 3"
  shows "mask_along_axis_batch ar h spect M v ax g =
     (Inr spect,
      setitem h spect
        (\<lambda>b c i j. in_slice (shape_v h spect ! nat ax)
            (batch_start ar g (shape_v h spect ! nat ax) M)
            (batch_end ar g (shape_v h spect ! nat ax) M)
            (if ax = 2 then i else j)) v)"
  using assms by (auto simp: mask_along_axis_batch_def size_v_23)

lemma fst_mask_along_axis:
  "fst (mask_along_axis ar h spect M v ax g) =
     (if ax = 2 \<or> ax = 3 then Inr spect else Inl ValueError)"
  by (auto simp: mask_along_axis_ok) (simp add: mask_along_axis_def)

lemma fst_mask_along_axis_batch:
  "fst (mask_along_axis_batch ar h spect M v ax g) =
     (if ax < - 4 \<or> 3 < ax then Inl IndexError
      else if ax = 2 \<or> ax = 3 then Inr spect else Inl ValueError)"
  by (auto simp: mask_along_axis_batch_ok) (auto simp: mask_along_axis_batch_def size_v_def)


text \<open>
  C3. For a maximal length \<open>M\<close> with \<open>0 < M \<le> L\<close> on an axis of length \<open>L\<close>, and draws
  in [0, 1), the span that \<open>mask_along_axis\<close> computes for a batch entry and a channel
  has a length in [0, M), starts at 0 or later and ends at \<open>L\<close> or before. The function
  does not compare \<open>M\<close> with \<open>L\<close>, and the bound on \<open>M\<close> is needed. The span is computed
  without rounding.
\<close>

theorem mask_span_bounds:
  assumes g: "\<forall>n. 0 \<le> g n \<and> g n < 1" and M: "0 < M" "M \<le> real L"
  shows "0 \<le> mask_end exact g B C L M b c - mask_start exact g B C L M b c
       \<and> real_of_int (mask_end exact g B C L M b c - mask_start exact g B C L M b c) < M
       \<and> 0 \<le> mask_start exact g B C L M b c
       \<and> mask_end exact g B C L M b c \<le> int L"
proof -
  let ?u1 = "g (b * C + c)" and ?u2 = "g (B * C + (b * C + c))"
  let ?len = "value_bc exact g C M b c" and ?lo = "min_value_bc exact g B C L M b c"
  from g have u1: "0 \<le> ?u1" "?u1 < 1" and u2: "0 \<le> ?u2" "?u2 < 1" by simp_all
  have len: "?len = ?u1 * M" and lo: "?lo = ?u2 * (real L - ?len)"
    by (simp_all add: value_bc_def min_value_bc_def exact_def)
  have v0: "0 \<le> ?len" using u1 M by (simp add: len)
  have "?u1 * M < 1 * M" using u1 M by (intro mult_strict_right_mono) simp_all
  then have vM: "?len < M" by (simp add: len)
  have d0: "0 \<le> real L - ?len" using vM M by simp
  have m0: "0 \<le> ?lo" using u2 d0 by (simp add: lo)
  have "?u2 * (real L - ?len) \<le> 1 * (real L - ?len)"
    using u2 d0 by (intro mult_right_mono) simp_all
  then have mL: "?lo \<le> real L - ?len" by (simp add: lo)
  have s: "mask_start exact g B C L M b c = trunc ?lo"
    and e: "mask_end exact g B C L M b c = trunc ?lo + trunc ?len"
    by (simp_all add: mask_end_def mask_start_def exact_def)
  from trunc_nonneg [OF v0] have t1: "0 \<le> trunc ?len" "real_of_int (trunc ?len) \<le> ?len"
    by simp_all
  from trunc_nonneg [OF m0] have t2: "0 \<le> trunc ?lo" "real_of_int (trunc ?lo) \<le> ?lo"
    by simp_all
  have "real_of_int (trunc ?lo + trunc ?len) \<le> real L"
    using t1 t2 mL by simp
  then have "trunc ?lo + trunc ?len \<le> int L" by linarith
  then show ?thesis
    using t1 t2 vM by (simp add: s e)
qed

theorem mask_span_bounds_witness:
  "0 \<le> mask_end exact half 2 1 10 5 1 0 - mask_start exact half 2 1 10 5 1 0
   \<and> real_of_int (mask_end exact half 2 1 10 5 1 0 - mask_start exact half 2 1 10 5 1 0) < 5
   \<and> 0 \<le> mask_start exact half 2 1 10 5 1 0
   \<and> mask_end exact half 2 1 10 5 1 0 \<le> int 10"
  using mask_span_bounds [of half 5 10 2 1 1 0] by (simp add: half_def)

text \<open>
  Outside the bound: with \<open>M = 100\<close> on an axis of length 10 and both draws 1/2 the
  span runs from -20 to 30, beyond the axis; with \<open>M = 0\<close> the length 0 is not below
  \<open>M\<close>.
\<close>

theorem mask_span_counterexample:
  "mask_start exact half 1 1 10 100 0 0 = - 20
   \<and> mask_end exact half 1 1 10 100 0 0 = 30
   \<and> \<not> mask_end exact half 1 1 10 100 0 0 \<le> int 10
   \<and> \<not> real_of_int (mask_end exact half 1 1 10 0 0 0 - mask_start exact half 1 1 10 0 0 0) < 0"
  by (simp add: mask_start_def mask_end_def min_value_bc_def value_bc_def trunc_def half_def
      exact_def)

subsection \<open>Masking\<close>

text \<open>
  C4. With \<open>across_batch\<close> true the module masks with \<open>mask_along_axis_batch\<close>: the two
  bounds of the slice are computed once in the call, from its first two draws, the
  maximal length and the length of the axis, and an element is overwritten exactly when
  its index along the axis is in the slice, whatever its batch entry and channel and
  whatever the machine arithmetic.
\<close>

theorem shared_mask_same_region:
  assumes "ax = 2 \<or> ax = 3" and "valid_v h spect b c i j"
  shows "fst (AxisMasking_forward ar (AxisMasking_init M ax True) h spect mv g) = Inr spect
       \<and> get_v (snd (AxisMasking_forward ar (AxisMasking_init M ax True) h spect mv g))
           spect b c i j =
           (if in_slice (shape_v h spect ! nat ax)
                 (batch_start ar g (shape_v h spect ! nat ax) M)
                 (batch_end ar g (shape_v h spect ! nat ax) M) (if ax = 2 then i else j)
            then (case mv of None \<Rightarrow> 0 | Some v \<Rightarrow> v)
            else get_v h spect b c i j)"
  using assms
  by (simp add: AxisMasking_forward_def AxisMasking_init_def mask_along_axis_batch_ok
      get_v_setitem)

theorem shared_mask_same_region_witness:
  "fst (AxisMasking_forward exact (AxisMasking_init 2 3 True) heap0 spect0 None half) = Inr spect0
   \<and> get_v (snd (AxisMasking_forward exact (AxisMasking_init 2 3 True) heap0 spect0 None half))
        spect0 0 0 0 1 = 0
   \<and> get_v (snd (AxisMasking_forward exact (AxisMasking_init 2 3 True) heap0 spect0 None half))
        spect0 1 0 1 1 = 0
   \<and> get_v (snd (AxisMasking_forward exact (AxisMasking_init 2 3 True) heap0 spect0 None half))
        spect0 1 0 1 2 = 1"
  using shared_mask_same_region [of 3 heap0 spect0 0 0 0 1 exact 2 None half]
    shared_mask_same_region [of 3 heap0 spect0 1 0 1 1 exact 2 None half]
    shared_mask_same_region [of 3 heap0 spect0 1 0 1 2 exact 2 None half]
  by (simp add: valid_heap0 shape_heap0 get_heap0 in_slice_def slice_index_def batch_start_def
      batch_end_def trunc_def half_def exact_def del: One_nat_def)

text \<open>
  C10. \<open>FrequencyMasking\<close> stores the axis 2 and \<open>TimeMasking\<close> the axis 3, \<open>forward\<close>
  passes the stored axis on, and a call returns the tensor: it raises no error for the
  axis, with either masking function.
\<close>

theorem axis_masking_modules:
  "axis (FrequencyMasking_init M ab) = 2
   \<and> axis (TimeMasking_init M ab) = 3
   \<and> fst (AxisMasking_forward ar (FrequencyMasking_init M ab) h spect mv g) = Inr spect
   \<and> fst (AxisMasking_forward ar (TimeMasking_init M ab) h spect mv g) = Inr spect"
  by (simp add: FrequencyMasking_init_def TimeMasking_init_def AxisMasking_init_def
      AxisMasking_forward_def fst_mask_along_axis fst_mask_along_axis_batch)

text \<open>
  C6. \<open>mask_along_axis\<close> raises \<open>ValueError\<close> for every axis other than 2 and 3.
  \<open>mask_along_axis_batch\<close> reads \<open>size(axis)\<close> before it checks the axis: an axis outside
  -4 .. 3, such as 4, ends in the \<open>IndexError\<close> of \<open>size\<close>, not in \<open>ValueError\<close>.
\<close>

theorem masking_axis_errors:
  "fst (mask_along_axis ar h spect M v ax g) =
     (if ax = 2 \<or> ax = 3 then Inr spect else Inl ValueError)
   \<and> fst (mask_along_axis_batch ar h spect M v ax g) =
     (if ax < - 4 \<or> 3 < ax then Inl IndexError
      else if ax = 2 \<or> ax = 3 then Inr spect else Inl ValueError)
   \<and> fst (mask_along_axis_batch ar h spect M v 4 g) = Inl IndexError"
  by (simp add: fst_mask_along_axis fst_mask_along_axis_batch)




subsection \<open>Additive noise\<close>

lemma nth_tab4:
  "b < shp ! 0 \<Longrightarrow> c < shp ! 1 \<Longrightarrow> i < shp ! 2 \<Longrightarrow> j < shp ! 3 \<Longrightarrow>
   tab4 shp f ! b ! c ! i ! j = f b c i j"
  by (simp add: tab4_def)

lemma list_ex_tab4_const:
  "\<not> P x \<Longrightarrow> \<not> list_ex (list_ex (list_ex (list_ex P))) (tab4 shp (\<lambda>b c i j. x))"
  by (simp add: tab4_def list_ex_iff)

lemma imap4_id:
  assumes "\<And>b c i j. valid_idx t b c i j \<Longrightarrow> f b c i j (t ! b ! c ! i ! j) = t ! b ! c ! i ! j"
  shows "imap4 f t = t"
  unfolding imap4_def
  by (intro imap_id) (use assms in \<open>simp add: valid_idx_def\<close>)

lemma rect_valid:
  assumes "rect t" and "valid_idx t b c i j"
  shows "b < dims t ! 0 \<and> c < dims t ! 1 \<and> i < dims t ! 2 \<and> j < dims t ! 3"
  using assms by (auto simp: rect_def valid_idx_def list_all_length dims_def)

lemma row0_nth: "m \<noteq> [] \<Longrightarrow> row0 m = m ! 0"
  by (cases m) (simp_all add: row0_def)

lemma rect_row0:
  assumes "rect t" and "b < length t" and "c < length (t ! b)" and "t ! b ! c \<noteq> []"
  shows "length (row0 (t ! b ! c)) = dims t ! 3"
proof -
  from assms(4) have "0 < length (t ! b ! c)" by simp
  with assms(1-3) have "length (t ! b ! c ! 0) = dims t ! 3"
    by (auto simp: rect_def list_all_length)
  with assms(4) show ?thesis by (simp add: row0_nth)
qed

lemma length_transpose2 [simp]: "length (transpose2 m) = length (row0 m)"
  by (simp add: transpose2_def)

lemma nth_transpose2:
  "i < length (row0 m) \<Longrightarrow> transpose2 m ! i = map (\<lambda>k. m ! k ! i) [0..<length m]"
  by (simp add: transpose2_def)

lemma valid_read_v:
  assumes "rect (cells h (base v))"
  shows "valid_idx (read_v h v) b c i j = valid_v h v b c i j"
proof (cases "swap23 v")
  case False
  then show ?thesis by (simp add: read_v_def valid_v_def)
next
  case True
  let ?t = "cells h (base v)"
  show ?thesis
  proof (cases "b < length ?t \<and> c < length (?t ! b)")
    case False
    with True show ?thesis by (auto simp: read_v_def valid_v_def valid_idx_def)
  next
    case bc: True
    show ?thesis
    proof (cases "?t ! b ! c = []")
      case True
      with \<open>swap23 v\<close> bc show ?thesis
        by (simp add: read_v_def valid_v_def valid_idx_def row0_def)
    next
      case ne: False
      from rect_row0 [OF assms _ _ ne] bc
      have r0: "length (row0 (?t ! b ! c)) = dims ?t ! 3" by simp
      have rj: "length (?t ! b ! c ! j) = dims ?t ! 3" if "j < length (?t ! b ! c)"
        using assms bc that by (auto simp: rect_def list_all_length)
      from \<open>swap23 v\<close> bc r0 rj show ?thesis
        by (auto simp: read_v_def valid_v_def valid_idx_def nth_transpose2)
    qed
  qed
qed

lemma nth_read_v:
  assumes "rect (cells h (base v))" and "valid_v h v b c i j"
  shows "read_v h v ! b ! c ! i ! j = get_v h v b c i j"
proof (cases "swap23 v")
  case False
  then show ?thesis by (simp add: read_v_def get_v_def)
next
  case True
  let ?t = "cells h (base v)"
  from assms(2) True have v: "b < length ?t" "c < length (?t ! b)" "j < length (?t ! b ! c)"
    "i < length (?t ! b ! c ! j)"
    by (simp_all add: valid_v_def valid_idx_def)
  then have ne: "?t ! b ! c \<noteq> []" by auto
  from rect_row0 [OF assms(1) v(1,2) ne] have r0: "length (row0 (?t ! b ! c)) = dims ?t ! 3" .
  from assms(1) v have "length (?t ! b ! c ! j) = dims ?t ! 3"
    by (auto simp: rect_def list_all_length)
  with v r0 have i: "i < length (row0 (?t ! b ! c))" by simp
  have "read_v h v ! b ! c ! i ! j = transpose2 (?t ! b ! c) ! i ! j"
    using True v by (simp add: read_v_def)
  also have "\<dots> = ?t ! b ! c ! j ! i"
    using i v by (simp add: nth_transpose2)
  finally show ?thesis using True by (simp add: get_v_def)
qed

lemma valid_v_shape:
  assumes "rect (cells h (base v))" and "valid_v h v b c i j"
  shows "b < shape_v h v ! 0 \<and> c < shape_v h v ! 1 \<and> i < shape_v h v ! 2 \<and> j < shape_v h v ! 3"
proof (cases "swap23 v")
  case False
  with rect_valid [OF assms(1), of b c i j] assms(2) show ?thesis
    by (simp add: shape_v_def valid_v_def)
next
  case True
  with rect_valid [OF assms(1), of b c j i] assms(2) show ?thesis
    by (simp add: shape_v_def valid_v_def Let_def dims_def)
qed


lemma valid_idx_tab4:
  "valid_idx (tab4 shp f) b c i j \<longleftrightarrow> b < shp ! 0 \<and> c < shp ! 1 \<and> i < shp ! 2 \<and> j < shp ! 3"
  by (auto simp: valid_idx_def tab4_def)

lemma forward_scalar:
  assumes "(case so of None \<Rightarrow> sc0 | Some x \<Rightarrow> x) = Scalar s" and "0 \<le> s"
  shows "AdditiveNoise_forward h (AdditiveNoise_init sc0) spect so z =
     (Inr \<lparr>base = next_free h, swap23 = False\<rparr>,
      h\<lparr>cells := (cells h)(next_free h :=
           imap4 (\<lambda>b c i j x. x +
               imap4 (\<lambda>b c i j m. m + tab4 (shape_v h spect) (\<lambda>b c i j. s) ! b ! c ! i ! j * z b c i j)
                 (tab4 (shape_v h spect) (\<lambda>b c i j. 0)) ! b ! c ! i ! j)
             (read_v h spect)),
        next_free := Suc (next_free h)\<rparr>)"
proof -
  have n: "\<not> list_ex (list_ex (list_ex (list_ex (\<lambda>x. x < 0)))) (tab4 (shape_v h spect) (\<lambda>b c i j. s))"
    using assms(2) by (intro list_ex_tab4_const) simp
  show ?thesis
  proof (cases so)
    case None
    with assms(1) have "sc0 = Scalar s" by simp
    with None n show ?thesis
      by (simp add: AdditiveNoise_forward_def AdditiveNoise_init_def expand_def normal_def
          alloc_def Let_def)
  next
    case (Some x)
    with assms(1) have "x = Scalar s" by simp
    with Some n show ?thesis
      by (simp add: AdditiveNoise_forward_def AdditiveNoise_init_def expand_def normal_def
          alloc_def Let_def)
  qed
qed

lemma scalar_noise_at:
  assumes "rect (cells h (base spect))" and "valid_v h spect b c i j"
  shows "imap4 (\<lambda>b c i j m. m + tab4 (shape_v h spect) (\<lambda>b c i j. s) ! b ! c ! i ! j * z b c i j)
           (tab4 (shape_v h spect) (\<lambda>b c i j. 0)) ! b ! c ! i ! j = (s::real) * z b c i j"
proof -
  from valid_v_shape [OF assms]
  have v: "b < shape_v h spect ! 0" "c < shape_v h spect ! 1" "i < shape_v h spect ! 2"
    "j < shape_v h spect ! 3"
    by simp_all
  then have "valid_idx (tab4 (shape_v h spect) (\<lambda>b c i j. 0::real)) b c i j"
    by (simp add: valid_idx_tab4)
  then have "imap4 (\<lambda>b c i j m. m + tab4 (shape_v h spect) (\<lambda>b c i j. s) ! b ! c ! i ! j * z b c i j)
           (tab4 (shape_v h spect) (\<lambda>b c i j. 0)) ! b ! c ! i ! j
         = tab4 (shape_v h spect) (\<lambda>b c i j. 0) ! b ! c ! i ! j
           + tab4 (shape_v h spect) (\<lambda>b c i j. s) ! b ! c ! i ! j * z b c i j"
    by (rule nth_imap4)
  also have "\<dots> = s * z b c i j"
    using v by (simp add: nth_tab4)
  finally show ?thesis .
qed

lemma forward_frame:
  "a < next_free h \<Longrightarrow> cells (snd (AdditiveNoise_forward h self spect so z)) a = cells h a"
  by (simp add: AdditiveNoise_forward_def alloc_def Let_def split: sum.splits)

lemma forward_error:
  "fst (AdditiveNoise_forward h self spect so z) = Inl e \<Longrightarrow>
   snd (AdditiveNoise_forward h self spect so z) = h"
  by (simp add: AdditiveNoise_forward_def alloc_def Let_def split: sum.splits)

lemma forward_result:
  assumes "fst (AdditiveNoise_forward h self spect so z) = Inr r"
  shows "r = \<lparr>base = next_free h, swap23 = False\<rparr>
       \<and> next_free (snd (AdditiveNoise_forward h self spect so z)) = Suc (next_free h)
       \<and> (\<exists>mean std noise.
            expand (loc self) (shape_v h spect) = Inr mean
          \<and> expand (case so of None \<Rightarrow> scale self | Some x \<Rightarrow> x) (shape_v h spect) = Inr std
          \<and> normal mean std z = Inr noise
          \<and> cells (snd (AdditiveNoise_forward h self spect so z)) (next_free h) =
              imap4 (\<lambda>b c i j x. x + noise ! b ! c ! i ! j) (read_v h spect))"
  using assms
  by (auto simp: AdditiveNoise_forward_def alloc_def Let_def split: sum.splits)

lemma read_v_cong: "cells h' (base v) = cells h (base v) \<Longrightarrow> read_v h' v = read_v h v"
  by (simp add: read_v_def)

text \<open>
  C9. With the scale 0, given with the call or stored in the component, the noise call
  succeeds and its result, a tensor at a new address, has the elements of the
  spectrogram it was given.
\<close>

theorem zero_scale_noise:
  assumes "rect (cells h (base spect))"
    and "(case so of None \<Rightarrow> sc0 | Some x \<Rightarrow> x) = Scalar 0"
  shows "fst (AdditiveNoise_forward h (AdditiveNoise_init sc0) spect so z) =
           Inr \<lparr>base = next_free h, swap23 = False\<rparr>
       \<and> read_v (snd (AdditiveNoise_forward h (AdditiveNoise_init sc0) spect so z))
           \<lparr>base = next_free h, swap23 = False\<rparr> = read_v h spect
       \<and> (valid_v h spect b c i j \<longrightarrow>
            get_v (snd (AdditiveNoise_forward h (AdditiveNoise_init sc0) spect so z))
              \<lparr>base = next_free h, swap23 = False\<rparr> b c i j = get_v h spect b c i j)"
proof -
  let ?noise = "imap4 (\<lambda>b c i j m. m + tab4 (shape_v h spect) (\<lambda>b c i j. 0) ! b ! c ! i ! j * z b c i j)
                 (tab4 (shape_v h spect) (\<lambda>b c i j. 0))"
  have z: "?noise ! b ! c ! i ! j = 0" if "valid_idx (read_v h spect) b c i j" for b c i j
    using scalar_noise_at [OF assms(1), of b c i j 0 z] that valid_read_v [OF assms(1), of b c i j]
    by simp
  have id: "imap4 (\<lambda>b c i j x. x + ?noise ! b ! c ! i ! j) (read_v h spect) = read_v h spect"
    by (rule imap4_id) (simp add: z)
  from forward_scalar [OF assms(2), of h spect z]
  have F: "AdditiveNoise_forward h (AdditiveNoise_init sc0) spect so z =
     (Inr \<lparr>base = next_free h, swap23 = False\<rparr>,
      h\<lparr>cells := (cells h)(next_free h := read_v h spect), next_free := Suc (next_free h)\<rparr>)"
    by (simp add: id)
  have g: "get_v (snd (AdditiveNoise_forward h (AdditiveNoise_init sc0) spect so z))
              \<lparr>base = next_free h, swap23 = False\<rparr> b c i j = get_v h spect b c i j"
    if "valid_v h spect b c i j"
    using nth_read_v [OF assms(1) that] by (simp add: F get_v_def)
  show ?thesis
    using g by (simp add: F read_v_def)
qed


theorem zero_scale_noise_witness:
  "fst (AdditiveNoise_forward heap0 (AdditiveNoise_init (Scalar 1)) spect0 (Some (Scalar 0)) threes) =
     Inr \<lparr>base = 1, swap23 = False\<rparr>
   \<and> read_v (snd (AdditiveNoise_forward heap0 (AdditiveNoise_init (Scalar 1)) spect0
         (Some (Scalar 0)) threes)) \<lparr>base = 1, swap23 = False\<rparr> = ones
   \<and> get_v (snd (AdditiveNoise_forward heap0 (AdditiveNoise_init (Scalar 1)) spect0
         (Some (Scalar 0)) threes)) \<lparr>base = 1, swap23 = False\<rparr> 1 0 1 2 = 1"
proof -
  have n: "next_free heap0 = 1" and r: "read_v heap0 spect0 = ones"
    by (simp_all add: heap0_def spect0_def read_v_def)
  from zero_scale_noise [where h = heap0 and spect = spect0 and so = "Some (Scalar 0)"
      and ?sc0.0 = "Scalar 1" and b = 1 and c = 0 and i = 1 and j = 2 and z = threes, OF rect_ones]
  show ?thesis
    by (simp add: n r valid_heap0 get_heap0 del: One_nat_def)
qed

lemma valid_idx_read_v:
  assumes "rect (cells h (base v))" and "valid_v h v b c i j"
  shows "valid_idx (read_v h v) b c i j"
  using valid_read_v [OF assms(1), of b c i j] assms(2) by simp

text \<open>
  C8. The noise call writes into no storage in use, so the spectrogram it was given is
  as before, and an error leaves the memory as it was. A result is a tensor at the next
  free address, which is not the address of the spectrogram, and its elements are those
  of the spectrogram plus the noise drawn with the expanded location and scale. With a
  number \<open>s \<ge> 0\<close> for the scale the call succeeds, and the element at \<open>(b, c, i, j)\<close> of
  the result is that of the spectrogram plus \<open>s\<close> times the standard normal draw.
\<close>

theorem noise_new_tensor:
  assumes "base spect < next_free h" and "a < next_free h"
    and "rect (cells h (base spect))" and "valid_v h spect b c i j"
    and "(case so of None \<Rightarrow> sc0 | Some x \<Rightarrow> x) = Scalar s" and "0 \<le> s"
  shows "cells (snd (AdditiveNoise_forward h self spect so' z)) a = cells h a
       \<and> read_v (snd (AdditiveNoise_forward h self spect so' z)) spect = read_v h spect
       \<and> (fst (AdditiveNoise_forward h self spect so' z) = Inl e \<longrightarrow>
            snd (AdditiveNoise_forward h self spect so' z) = h)
       \<and> (fst (AdditiveNoise_forward h self spect so' z) = Inr r \<longrightarrow>
            r = \<lparr>base = next_free h, swap23 = False\<rparr> \<and> base r \<noteq> base spect
          \<and> next_free (snd (AdditiveNoise_forward h self spect so' z)) = Suc (next_free h)
          \<and> (\<exists>mean std noise.
                expand (loc self) (shape_v h spect) = Inr mean
              \<and> expand (case so' of None \<Rightarrow> scale self | Some x \<Rightarrow> x) (shape_v h spect) = Inr std
              \<and> normal mean std z = Inr noise
              \<and> cells (snd (AdditiveNoise_forward h self spect so' z)) (next_free h) =
                  imap4 (\<lambda>b c i j x. x + noise ! b ! c ! i ! j) (read_v h spect)))
       \<and> fst (AdditiveNoise_forward h (AdditiveNoise_init sc0) spect so z) =
           Inr \<lparr>base = next_free h, swap23 = False\<rparr>
       \<and> get_v (snd (AdditiveNoise_forward h (AdditiveNoise_init sc0) spect so z))
           \<lparr>base = next_free h, swap23 = False\<rparr> b c i j = get_v h spect b c i j + s * z b c i j"
proof -
  let ?F = "AdditiveNoise_forward h self spect so' z"
  have 1: "cells (snd ?F) a = cells h a"
    using assms(2) by (rule forward_frame)
  have "cells (snd ?F) (base spect) = cells h (base spect)"
    using assms(1) by (rule forward_frame)
  then have 2: "read_v (snd ?F) spect = read_v h spect"
    by (rule read_v_cong)
  have 3: "fst ?F = Inl e \<longrightarrow> snd ?F = h"
    by (simp add: forward_error)
  have 4: "fst ?F = Inr r \<longrightarrow>
            r = \<lparr>base = next_free h, swap23 = False\<rparr> \<and> base r \<noteq> base spect
          \<and> next_free (snd ?F) = Suc (next_free h)
          \<and> (\<exists>mean std noise.
                expand (loc self) (shape_v h spect) = Inr mean
              \<and> expand (case so' of None \<Rightarrow> scale self | Some x \<Rightarrow> x) (shape_v h spect) = Inr std
              \<and> normal mean std z = Inr noise
              \<and> cells (snd ?F) (next_free h) =
                  imap4 (\<lambda>b c i j x. x + noise ! b ! c ! i ! j) (read_v h spect))"
  proof
    assume "fst ?F = Inr r"
    from forward_result [OF this] assms(1) show "r = \<lparr>base = next_free h, swap23 = False\<rparr> \<and> base r \<noteq> base spect
          \<and> next_free (snd ?F) = Suc (next_free h)
          \<and> (\<exists>mean std noise.
                expand (loc self) (shape_v h spect) = Inr mean
              \<and> expand (case so' of None \<Rightarrow> scale self | Some x \<Rightarrow> x) (shape_v h spect) = Inr std
              \<and> normal mean std z = Inr noise
              \<and> cells (snd ?F) (next_free h) =
                  imap4 (\<lambda>b c i j x. x + noise ! b ! c ! i ! j) (read_v h spect))"
      by auto
  qed
  let ?G = "AdditiveNoise_forward h (AdditiveNoise_init sc0) spect so z"
  note G = forward_scalar [OF assms(5,6), of h spect z]
  have 5: "fst ?G = Inr \<lparr>base = next_free h, swap23 = False\<rparr>"
    by (simp add: G)
  have "get_v (snd ?G) \<lparr>base = next_free h, swap23 = False\<rparr> b c i j =
        read_v h spect ! b ! c ! i ! j + s * z b c i j"
    using valid_idx_read_v [OF assms(3,4)]
    by (simp add: G get_v_def nth_imap4 scalar_noise_at [OF assms(3,4)])
  then have 6: "get_v (snd ?G) \<lparr>base = next_free h, swap23 = False\<rparr> b c i j =
        get_v h spect b c i j + s * z b c i j"
    by (simp add: nth_read_v [OF assms(3,4)])
  from 1 2 3 4 5 6 show ?thesis by blast
qed

theorem noise_new_tensor_witness:
  "cells (snd (AdditiveNoise_forward heap0 (AdditiveNoise_init (Scalar 1)) spect0
       (Some (Scalar 2)) threes)) 0 = ones
   \<and> read_v (snd (AdditiveNoise_forward heap0 (AdditiveNoise_init (Scalar 1)) spect0
       (Some (Scalar 2)) threes)) spect0 = ones
   \<and> fst (AdditiveNoise_forward heap0 (AdditiveNoise_init (Scalar 1)) spect0
       (Some (Scalar 2)) threes) = Inr \<lparr>base = 1, swap23 = False\<rparr>
   \<and> get_v (snd (AdditiveNoise_forward heap0 (AdditiveNoise_init (Scalar 1)) spect0
       (Some (Scalar 2)) threes)) \<lparr>base = 1, swap23 = False\<rparr> 1 0 1 2 = 7"
proof -
  have n: "next_free heap0 = 1" "base spect0 < next_free heap0" "0 < next_free heap0"
    and r: "read_v heap0 spect0 = ones" and c: "cells heap0 0 = ones"
    by (simp_all add: heap0_def spect0_def read_v_def)
  have s: "(case Some (Scalar 2) of None \<Rightarrow> Scalar 1 | Some x \<Rightarrow> x) = Scalar 2" "(0::real) \<le> 2"
    by simp_all
  from noise_new_tensor [OF n(2,3) rect_ones valid_heap0(2) s,
      where self = "AdditiveNoise_init (Scalar 1)" and so' = "Some (Scalar 2)" and z = threes
        and e = RuntimeError and r = "\<lparr>base = 1, swap23 = False\<rparr>"]
  show ?thesis
    by (simp add: n(1) r c get_heap0 threes_def del: One_nat_def)
qed

subsection \<open>Parameters are not validated\<close>

text \<open>
  C5. No parameter is rejected as invalid. The constructors check nothing: \<open>StretchSpecTime\<close> is built for every
  rate, every hop length and every number of bins that is not negative, with the rate
  stored as given; \<open>AdditiveNoise\<close> stores every scale as given; and a noise call with a
  number \<open>s \<ge> 0\<close> for the scale, 0 included, succeeds.
\<close>

theorem constructors_accept_all:
  "(0 \<le> num_bins \<longrightarrow>
      (\<exists>tbl. StretchSpecTime_init rate0 hop_len num_bins = Inr \<lparr>rate = rate0, phi_advance = tbl\<rparr>
           \<and> length tbl = nat num_bins))
   \<and> scale (AdditiveNoise_init sc) = sc
   \<and> (0 \<le> s \<longrightarrow>
        fst (AdditiveNoise_forward h (AdditiveNoise_init sc) spect (Some (Scalar s)) z) =
          Inr \<lparr>base = next_free h, swap23 = False\<rparr>)"
proof -
  have 1: "0 \<le> num_bins \<longrightarrow>
      (\<exists>tbl. StretchSpecTime_init rate0 hop_len num_bins = Inr \<lparr>rate = rate0, phi_advance = tbl\<rparr>
           \<and> length tbl = nat num_bins)"
    by (simp add: StretchSpecTime_init_def linspace_def)
  have 2: "scale (AdditiveNoise_init sc) = sc"
    by (simp add: AdditiveNoise_init_def)
  have 3: "0 \<le> s \<longrightarrow>
        fst (AdditiveNoise_forward h (AdditiveNoise_init sc) spect (Some (Scalar s)) z) =
          Inr \<lparr>base = next_free h, swap23 = False\<rparr>"
    by (simp add: forward_scalar [where so = "Some (Scalar s)" and ?sc0.0 = sc and s = s])
  from 1 2 3 show ?thesis by blast
qed

theorem constructors_accept_all_witness:
  "StretchSpecTime_init 0 (- 1) 0 = Inr \<lparr>rate = 0, phi_advance = []\<rparr>
   \<and> scale (AdditiveNoise_init (Scalar (- 1))) = Scalar (- 1)
   \<and> fst (AdditiveNoise_forward heap0 (AdditiveNoise_init (Scalar (- 1))) spect0 (Some (Scalar 0))
        threes) = Inr \<lparr>base = 1, swap23 = False\<rparr>"
proof -
  have n: "next_free heap0 = 1" by (simp add: heap0_def)
  from constructors_accept_all [where num_bins = 0 and ?rate0.0 = 0 and hop_len = "- 1"
      and sc = "Scalar (- 1)" and s = 0 and h = heap0 and spect = spect0 and z = threes]
  show ?thesis
    by (auto simp: n simp del: One_nat_def)
qed

text \<open>
  Parameters that are not positive: a rate 0, a hop length 0 and no bins, or a negative
  rate and hop length, build a component; a negative scale is stored; a call with the
  scale 0 returns a tensor.
\<close>

theorem invalid_parameter_counterexample:
  "StretchSpecTime_init 0 0 0 = Inr \<lparr>rate = 0, phi_advance = []\<rparr>
   \<and> StretchSpecTime_init (- 1) (- 512) 1 = Inr \<lparr>rate = - 1, phi_advance = [[0]]\<rparr>
   \<and> scale (AdditiveNoise_init (Scalar (- 1))) = Scalar (- 1)
   \<and> fst (AdditiveNoise_forward heap0 (AdditiveNoise_init (Scalar 1)) spect0 (Some (Scalar 0))
        threes) = Inr \<lparr>base = 1, swap23 = False\<rparr>"
proof -
  have n: "next_free heap0 = 1" by (simp add: heap0_def)
  show ?thesis
    by (simp add: StretchSpecTime_init_def linspace_def AdditiveNoise_init_def
        forward_scalar [where so = "Some (Scalar 0)" and ?sc0.0 = "Scalar 1" and s = 0,
          unfolded AdditiveNoise_init_def] n
        del: One_nat_def)
qed

end
